theory Spec2Isabelle
  imports Main
begin

section \<open>The error message store and fatal path of the USP agent (src/core/usp_err.c)\<close>

text \<open>
  The file keeps one static character array, \<^verbatim>\<open>usp_error\<close>, formats messages into it
  with \<^verbatim>\<open>vsnprintf\<close>, reports them to the log, and aborts the process on fatal errors.
  The model below is a state-passing translation of each function. Everything the file
  reaches outside itself (the C library's formatter, the log functions of usp_log, the
  thread classifier of os_utils, the constants of common_defs.h and usp_log.h) is either a
  field of the environment record or an entry appended to the list of outgoing calls.
\<close>

subsection \<open>Character arrays and C strings\<close>

abbreviation NUL :: char where
  "NUL \<equiv> CHR 0x00"

text \<open>
  A \<^verbatim>\<open>char\<close> array is the list of its bytes. The string a reader sees through a pointer to
  the array is the bytes before the first terminator.
\<close>

definition c_str :: "string \<Rightarrow> string" where
  "c_str buf = takeWhile (\<lambda>c. c \<noteq> NUL) buf"

text \<open>
  \<^verbatim>\<open>vsnprintf(buf, n, fmt, ap)\<close> of the C library, given the complete output \<open>out\<close> that the
  format and its arguments produce: nothing is written when \<open>n = 0\<close>; otherwise the first
  \<open>min (length out) (n - 1)\<close> bytes of the output are stored, then a terminator, and the bytes
  of the array behind the terminator keep their value. A call whose \<open>n\<close> exceeds the size of
  the array would write behind its end; the model shows that as a result longer than \<open>buf\<close>.
  An encoding error inside the formatter (a negative return value) is not modelled: the
  output of a format is a total function of the format and its arguments.
\<close>

definition vsnprintf :: "string \<Rightarrow> nat \<Rightarrow> string \<Rightarrow> string" where
  "vsnprintf buf n out =
     (if n = 0 then buf
      else let k = min (length out) (n - 1)
           in take k out @ NUL # drop (Suc k) buf)"

subsection \<open>What the file takes from elsewhere\<close>

datatype va_arg = VA_str string | VA_int int

type_synonym va_list = "va_arg list"

type_synonym thread = nat

text \<open>
  The constants \<^verbatim>\<open>USP_ERR_MAXLEN\<close> (common_defs.h) and \<^verbatim>\<open>kLogLevel_Error\<close> (usp_log.h),
  the output of the C library's formatter for a format and its arguments, the classifier
  \<^verbatim>\<open>OS_UTILS_IsDataModelThread\<close> (os_utils) as a function of the thread that makes the call
  and of the caller's name, and the bytes found in an array on the stack before it is
  written. Of the classifier only the answer and the fact that it was called are modelled,
  of the log functions only the fact that they were called and with which text.
\<close>

record env =
  USP_ERR_MAXLEN :: nat
  kLogLevel_Error :: int
  render :: "string \<Rightarrow> va_list \<Rightarrow> string"
  IsDataModelThread :: "thread \<Rightarrow> string \<Rightarrow> bool"
  stack_bytes :: "nat \<Rightarrow> char"

datatype log_type = kLogType_Debug

text \<open>The calls that leave the file, in the order in which they are made.\<close>

datatype call =
    Call_IsDataModelThread string
  | Call_LOG_Puts log_type string
  | Call_LOG_Callstack
  | Call_LOG_Error string

datatype sighandler = SIG_DFL | Handler_SegFaultHandler

text \<open>
  The process state the file reads and writes: its own array, the two globals of usp_log
  that it reads, the disposition of SIGSEGV, the thread that is executing the current call,
  and the calls made so far.
\<close>

record state =
  usp_error :: string
  usp_log_level :: int
  enable_callstack_debug :: bool
  sigsegv_action :: sighandler
  caller_thread :: thread
  calls :: "call list"

text \<open>A call of a function of the file either returns or ends the process in \<^verbatim>\<open>abort()\<close>.\<close>

datatype outcome = Returned state | Aborted state

fun state_of :: "outcome \<Rightarrow> state" where
  "state_of (Returned s) = s"
| "state_of (Aborted s) = s"

fun is_Aborted :: "outcome \<Rightarrow> bool" where
  "is_Aborted (Returned s) = False"
| "is_Aborted (Aborted s) = True"

definition abort :: "state \<Rightarrow> outcome" where
  "abort s = Aborted s"

definition USP_LOG_Puts :: "log_type \<Rightarrow> string \<Rightarrow> state \<Rightarrow> state" where
  "USP_LOG_Puts ty str s = s\<lparr>calls := calls s @ [Call_LOG_Puts ty str]\<rparr>"

definition USP_LOG_Callstack :: "state \<Rightarrow> state" where
  "USP_LOG_Callstack s = s\<lparr>calls := calls s @ [Call_LOG_Callstack]\<rparr>"

definition USP_LOG_Error :: "string \<Rightarrow> state \<Rightarrow> state" where
  "USP_LOG_Error str s = s\<lparr>calls := calls s @ [Call_LOG_Error str]\<rparr>"

definition OS_UTILS_IsDataModelThread :: "env \<Rightarrow> string \<Rightarrow> state \<Rightarrow> bool \<times> state" where
  "OS_UTILS_IsDataModelThread E caller s =
     (IsDataModelThread E (caller_thread s) caller,
      s\<lparr>calls := calls s @ [Call_IsDataModelThread caller]\<rparr>)"

text \<open>The calls a function has added to those already made.\<close>

definition emitted :: "state \<Rightarrow> state \<Rightarrow> call list" where
  "emitted s s' = drop (length (calls s)) (calls s')"

subsection \<open>The functions of usp_err.c\<close>

text \<open>
  \<^verbatim>\<open>static char usp_error[USP_ERR_MAXLEN] = { 0 };\<close>
\<close>

definition usp_error_at_start :: "env \<Rightarrow> string" where
  "usp_error_at_start E = replicate (USP_ERR_MAXLEN E) NUL"

text \<open>\<^verbatim>\<open>signal(SIGSEGV, SegFaultHandler);\<close>\<close>

definition USP_ERR_Init :: "state \<Rightarrow> state" where
  "USP_ERR_Init s = s\<lparr>sigsegv_action := Handler_SegFaultHandler\<rparr>"

text \<open>
  \<^verbatim>\<open>buf_to_use\<close> points either to the static array or to the array \<^verbatim>\<open>local_buf\<close> of the
  current call; reads and writes through it reach the one it points to.
\<close>

datatype buf_ptr = Ptr_usp_error | Ptr_local_buf

fun deref :: "buf_ptr \<Rightarrow> string \<times> string \<Rightarrow> string" where
  "deref Ptr_usp_error (g, l) = g"
| "deref Ptr_local_buf (g, l) = l"

fun assign :: "buf_ptr \<Rightarrow> string \<Rightarrow> string \<times> string \<Rightarrow> string \<times> string" where
  "assign Ptr_usp_error v (g, l) = (v, l)"
| "assign Ptr_local_buf v (g, l) = (g, v)"

definition USP_ERR_SetMessage :: "env \<Rightarrow> string \<Rightarrow> va_list \<Rightarrow> state \<Rightarrow> state" where
  "USP_ERR_SetMessage E fmt ap s =
     (let local_buf = map (stack_bytes E) [0..<USP_ERR_MAXLEN E];
          (dm, s1) = OS_UTILS_IsDataModelThread E ''USP_ERR_SetMessage'' s;
          (buf_to_use, buf_len) =
             (if dm = False then (Ptr_local_buf, USP_ERR_MAXLEN E)
              else (Ptr_usp_error, USP_ERR_MAXLEN E));
          m0 = (usp_error s1, local_buf);
          m1 = assign buf_to_use (vsnprintf (deref buf_to_use m0) buf_len (render E fmt ap)) m0;
          m2 = assign buf_to_use ((deref buf_to_use m1)[buf_len - 1 := NUL]) m1;
          s2 = s1\<lparr>usp_error := fst m2\<rparr>;
          s3 = (if usp_log_level s2 \<ge> kLogLevel_Error E
                then USP_LOG_Puts kLogType_Debug (c_str (deref buf_to_use m2)) s2 else s2)
      in if enable_callstack_debug s3 then USP_LOG_Callstack s3 else s3)"

definition USP_ERR_ClearMessage :: "state \<Rightarrow> state" where
  "USP_ERR_ClearMessage s = s\<lparr>usp_error := (usp_error s)[0 := NUL]\<rparr>"

definition USP_ERR_ReplaceEmptyMessage :: "env \<Rightarrow> string \<Rightarrow> va_list \<Rightarrow> state \<Rightarrow> state" where
  "USP_ERR_ReplaceEmptyMessage E fmt ap s =
     (if usp_error s ! 0 \<noteq> NUL then s
      else let s1 = s\<lparr>usp_error := vsnprintf (usp_error s) (USP_ERR_MAXLEN E) (render E fmt ap)\<rparr>;
               s2 = s1\<lparr>usp_error := (usp_error s1)[USP_ERR_MAXLEN E - 1 := NUL]\<rparr>
           in if usp_log_level s2 \<ge> kLogLevel_Error E
              then USP_LOG_Puts kLogType_Debug (c_str (usp_error s2)) s2 else s2)"

text \<open>
  \<^verbatim>\<open>return usp_error;\<close> The pointer designates the static array; the model returns what a
  reader finds there at the time of the call.
\<close>

definition USP_ERR_GetMessage :: "state \<Rightarrow> string" where
  "USP_ERR_GetMessage s = usp_error s"

definition USP_ERR_Terminate :: "env \<Rightarrow> string \<Rightarrow> va_list \<Rightarrow> state \<Rightarrow> outcome" where
  "USP_ERR_Terminate E fmt ap s =
     (let s1 = s\<lparr>usp_error := vsnprintf (usp_error s) (USP_ERR_MAXLEN E) (render E fmt ap)\<rparr>;
          s2 = s1\<lparr>usp_error := (usp_error s1)[USP_ERR_MAXLEN E - 1 := NUL]\<rparr>;
          s3 = (if usp_log_level s2 \<ge> kLogLevel_Error E
                then USP_LOG_Puts kLogType_Debug ''Exiting USP Agent''
                       (USP_LOG_Callstack
                         (USP_LOG_Puts kLogType_Debug (c_str (usp_error s2)) s2))
                else s2)
      in abort s3)"

definition SegFaultHandler :: "int \<Rightarrow> state \<Rightarrow> outcome" where
  "SegFaultHandler sig s =
     abort (USP_LOG_Callstack (USP_LOG_Error ''ERROR: Segmentation Fault'' s))"

text \<open>
  Delivery of SIGSEGV by the operating system: the installed handler runs; with the default
  disposition the process is ended by the signal itself. The handler does not use its
  argument.
\<close>

definition deliver_SIGSEGV :: "state \<Rightarrow> outcome" where
  "deliver_SIGSEGV s =
     (case sigsegv_action s of
        SIG_DFL \<Rightarrow> Aborted s
      | Handler_SegFaultHandler \<Rightarrow> SegFaultHandler 11 s)"

subsection \<open>Sequences of calls\<close>

text \<open>
  The functions are called one after another, each by some thread. The model does not
  interleave the statements of two calls.
\<close>

datatype api_call =
    Do_Init
  | Do_SetMessage string va_list
  | Do_ClearMessage
  | Do_ReplaceEmptyMessage string va_list
  | Do_Terminate string va_list

fun call_api :: "env \<Rightarrow> api_call \<Rightarrow> state \<Rightarrow> outcome" where
  "call_api E Do_Init s = Returned (USP_ERR_Init s)"
| "call_api E (Do_SetMessage fmt ap) s = Returned (USP_ERR_SetMessage E fmt ap s)"
| "call_api E Do_ClearMessage s = Returned (USP_ERR_ClearMessage s)"
| "call_api E (Do_ReplaceEmptyMessage fmt ap) s = Returned (USP_ERR_ReplaceEmptyMessage E fmt ap s)"
| "call_api E (Do_Terminate fmt ap) s = USP_ERR_Terminate E fmt ap s"

fun run :: "env \<Rightarrow> (thread \<times> api_call) list \<Rightarrow> state \<Rightarrow> outcome" where
  "run E [] s = Returned s"
| "run E ((t, c) # cs) s =
     (case call_api E c (s\<lparr>caller_thread := t\<rparr>) of
        Returned s' \<Rightarrow> run E cs s'
      | Aborted s' \<Rightarrow> Aborted s')"

subsection \<open>The property of the static array\<close>

text \<open>
  The array has its declared size and the string in it ends before the end of the array:
  it is empty, or its length is below \<^verbatim>\<open>USP_ERR_MAXLEN\<close> and a terminator follows it
  inside the array.
\<close>

definition terminated_in :: "env \<Rightarrow> string \<Rightarrow> bool" where
  "terminated_in E buf \<longleftrightarrow>
     length buf = USP_ERR_MAXLEN E \<and> length (c_str buf) < USP_ERR_MAXLEN E"

subsection \<open>Concrete inputs\<close>

text \<open>
  A formatter for the fragment of printf formats made of plain text, \<^verbatim>\<open>%s\<close> and \<^verbatim>\<open>%%\<close>,
  an environment in which thread 0 is the data model thread and \<^verbatim>\<open>kLogLevel_Error\<close> is 1,
  and a state with a given array, log level, call stack flag and calling thread. They give
  the general theorems below something concrete to run on.
\<close>

fun render_s :: "string \<Rightarrow> va_list \<Rightarrow> string" where
  "render_s [] ap = []"
| "render_s [c] ap = [c]"
| "render_s (c # d # fmt) ap =
     (if c = CHR ''%'' \<and> d = CHR ''s'' then
        (case ap of VA_str a # ap' \<Rightarrow> c_str a @ render_s fmt ap' | _ \<Rightarrow> render_s fmt ap)
      else if c = CHR ''%'' \<and> d = CHR ''%'' then CHR ''%'' # render_s fmt ap
      else c # render_s (d # fmt) ap)"

definition demo_env :: "nat \<Rightarrow> env" where
  "demo_env n =
     \<lparr>USP_ERR_MAXLEN = n, kLogLevel_Error = 1, render = render_s,
      IsDataModelThread = (\<lambda>t caller. t = 0), stack_bytes = (\<lambda>i. CHR ''?'')\<rparr>"

definition demo_state :: "string \<Rightarrow> int \<Rightarrow> bool \<Rightarrow> thread \<Rightarrow> state" where
  "demo_state buf lvl dbg t =
     \<lparr>usp_error = buf, usp_log_level = lvl, enable_callstack_debug = dbg,
      sigsegv_action = SIG_DFL, caller_thread = t, calls = []\<rparr>"

section \<open>Properties\<close>

subsection \<open>Formatting into an array of the declared size\<close>

lemma stored_length:
  assumes "0 < n" and "length buf = n"
  shows "length ((vsnprintf buf n out)[n - 1 := NUL]) = n"
  using assms by (auto simp: vsnprintf_def min_def)

lemma stored_prefix:
  assumes "0 < n" and "length buf = n"
  shows "take (Suc (min (length out) (n - 1))) ((vsnprintf buf n out)[n - 1 := NUL]) =
           take (n - 1) out @ [NUL]"
proof (cases "length out < n - 1")
  case True
  then have k: "min (length out) (n - 1) = length out" by simp
  have "take (Suc (length out)) ((vsnprintf buf n out)[n - 1 := NUL]) =
          take (Suc (length out)) (vsnprintf buf n out)"
    using True by (intro take_update_cancel) simp
  also have "\<dots> = out @ [NUL]"
    using assms True by (simp add: vsnprintf_def k)
  finally show ?thesis using True by (simp add: k)
next
  case False
  then have k: "min (length out) (n - 1) = n - 1" by simp
  have "(vsnprintf buf n out)[n - 1 := NUL] = take (n - 1) out @ [NUL]"
    using assms False by (simp add: vsnprintf_def k list_update_append)
  then show ?thesis using False assms by (simp add: k)
qed

lemma stored_shape:
  assumes "0 < n" and "length buf = n"
  shows "\<exists>rest. (vsnprintf buf n out)[n - 1 := NUL] = take (n - 1) out @ NUL # rest"
proof -
  let ?B = "(vsnprintf buf n out)[n - 1 := NUL]"
  let ?k = "Suc (min (length out) (n - 1))"
  have "?B = take ?k ?B @ drop ?k ?B" by simp
  also have "\<dots> = take (n - 1) out @ NUL # drop ?k ?B"
    using stored_prefix [OF assms, of out] by simp
  finally show ?thesis by blast
qed

lemma c_str_append_NUL: "c_str (xs @ NUL # ys) = c_str xs"
  unfolding c_str_def by (induction xs) auto

lemma c_str_no_NUL: "NUL \<notin> set xs \<Longrightarrow> c_str xs = xs"
  unfolding c_str_def by (induction xs) auto

lemma c_str_length: "length (c_str xs) \<le> length xs"
  unfolding c_str_def by (rule length_takeWhile_le)

lemma stored_c_str:
  assumes "0 < n" and "length buf = n"
  shows "c_str ((vsnprintf buf n out)[n - 1 := NUL]) = c_str (take (n - 1) out)"
  using stored_shape [OF assms, of out] by (auto simp: c_str_append_NUL)

lemma stored_terminated:
  assumes "0 < USP_ERR_MAXLEN E" and "length buf = USP_ERR_MAXLEN E"
  shows "terminated_in E ((vsnprintf buf (USP_ERR_MAXLEN E) out)[USP_ERR_MAXLEN E - 1 := NUL])"
proof -
  define n where "n = USP_ERR_MAXLEN E"
  define B where "B = (vsnprintf buf n out)[n - 1 := NUL]"
  have n: "0 < n" "length buf = n"
    using assms by (simp_all add: n_def)
  have len: "length B = n"
    unfolding B_def using n by (rule stored_length)
  have "c_str B = c_str (take (n - 1) out)"
    unfolding B_def using n by (rule stored_c_str)
  then have "length (c_str B) \<le> length (take (n - 1) out)"
    using c_str_length [of "take (n - 1) out"] by (simp only:)
  then have "length (c_str B) < n"
    using n(1) by auto
  with len have "length B = n \<and> length (c_str B) < n"
    by simp
  then show ?thesis
    unfolding terminated_in_def B_def n_def .
qed

lemma c_str_empty_iff: "buf \<noteq> [] \<Longrightarrow> c_str buf = [] \<longleftrightarrow> buf ! 0 = NUL"
  by (cases buf) (auto simp: c_str_def)

subsection \<open>What each function does to the array and which calls it makes\<close>

lemma SetMessage_primary_buf:
  assumes "IsDataModelThread E (caller_thread s) ''USP_ERR_SetMessage''"
  shows "usp_error (USP_ERR_SetMessage E fmt ap s) =
           (vsnprintf (usp_error s) (USP_ERR_MAXLEN E) (render E fmt ap))[USP_ERR_MAXLEN E - 1 := NUL]"
  using assms
  by (simp add: USP_ERR_SetMessage_def OS_UTILS_IsDataModelThread_def Let_def
        USP_LOG_Puts_def USP_LOG_Callstack_def)

lemma SetMessage_other_buf:
  assumes "\<not> IsDataModelThread E (caller_thread s) ''USP_ERR_SetMessage''"
  shows "usp_error (USP_ERR_SetMessage E fmt ap s) = usp_error s"
  using assms
  by (simp add: USP_ERR_SetMessage_def OS_UTILS_IsDataModelThread_def Let_def
        USP_LOG_Puts_def USP_LOG_Callstack_def)

lemma SetMessage_calls:
  "\<exists>txt. calls (USP_ERR_SetMessage E fmt ap s) =
     calls s @ Call_IsDataModelThread ''USP_ERR_SetMessage'' #
       (if usp_log_level s \<ge> kLogLevel_Error E then [Call_LOG_Puts kLogType_Debug txt] else []) @
       (if enable_callstack_debug s then [Call_LOG_Callstack] else [])"
  by (simp add: USP_ERR_SetMessage_def OS_UTILS_IsDataModelThread_def Let_def
        USP_LOG_Puts_def USP_LOG_Callstack_def)

lemma Replace_nonempty: "usp_error s ! 0 \<noteq> NUL \<Longrightarrow> USP_ERR_ReplaceEmptyMessage E fmt ap s = s"
  by (simp add: USP_ERR_ReplaceEmptyMessage_def)

lemma Replace_empty_buf:
  assumes "usp_error s ! 0 = NUL"
  shows "usp_error (USP_ERR_ReplaceEmptyMessage E fmt ap s) =
           (vsnprintf (usp_error s) (USP_ERR_MAXLEN E) (render E fmt ap))[USP_ERR_MAXLEN E - 1 := NUL]"
  using assms by (simp add: USP_ERR_ReplaceEmptyMessage_def Let_def USP_LOG_Puts_def)

lemma Replace_calls:
  "\<exists>txt. calls (USP_ERR_ReplaceEmptyMessage E fmt ap s) =
     calls s @ (if usp_error s ! 0 = NUL \<and> usp_log_level s \<ge> kLogLevel_Error E
                then [Call_LOG_Puts kLogType_Debug txt] else [])"
  by (simp add: USP_ERR_ReplaceEmptyMessage_def Let_def USP_LOG_Puts_def)

lemma Terminate_aborts:
  "\<exists>s'. USP_ERR_Terminate E fmt ap s = Aborted s'"
  by (simp add: USP_ERR_Terminate_def Let_def abort_def)

lemma Terminate_buf:
  "usp_error (state_of (USP_ERR_Terminate E fmt ap s)) =
     (vsnprintf (usp_error s) (USP_ERR_MAXLEN E) (render E fmt ap))[USP_ERR_MAXLEN E - 1 := NUL]"
  by (simp add: USP_ERR_Terminate_def Let_def abort_def USP_LOG_Puts_def USP_LOG_Callstack_def)

lemma Terminate_calls:
  "calls (state_of (USP_ERR_Terminate E fmt ap s)) =
     calls s @
       (if usp_log_level s \<ge> kLogLevel_Error E
        then [Call_LOG_Puts kLogType_Debug
                (c_str (usp_error (state_of (USP_ERR_Terminate E fmt ap s)))),
              Call_LOG_Callstack,
              Call_LOG_Puts kLogType_Debug ''Exiting USP Agent'']
        else [])"
  by (simp add: USP_ERR_Terminate_def Let_def abort_def USP_LOG_Puts_def USP_LOG_Callstack_def)

lemma emitted_append: "calls s' = calls s @ cs \<Longrightarrow> emitted s s' = cs"
  by (simp add: emitted_def)

subsection \<open>Setting the message on the data model thread\<close>

text \<open>
  Claim C1. When \<^verbatim>\<open>USP_ERR_SetMessage\<close> is called by a thread that the classifier
  accepts as the data model thread, the static array afterwards holds the output of the
  format, cut to \<^verbatim>\<open>USP_ERR_MAXLEN - 1\<close> bytes, followed by a terminator, and the array
  keeps its size. The string read through \<^verbatim>\<open>USP_ERR_GetMessage\<close> is therefore the
  output itself when it is shorter than the array, and its first \<^verbatim>\<open>USP_ERR_MAXLEN - 1\<close>
  bytes, with the terminator in the last cell, when it is not. (A string ends at its first
  terminator, so the reading as a string is stated for outputs that contain none; the
  statement about the stored bytes holds for every output.)
\<close>

theorem SetMessage_primary_stores_rendering:
  assumes "0 < USP_ERR_MAXLEN E"
    and "length (usp_error s) = USP_ERR_MAXLEN E"
    and "IsDataModelThread E (caller_thread s) ''USP_ERR_SetMessage''"
  shows "let out = render E fmt ap;
             n = USP_ERR_MAXLEN E;
             msg = USP_ERR_GetMessage (USP_ERR_SetMessage E fmt ap s)
         in length msg = n \<and>
            take (Suc (min (length out) (n - 1))) msg = take (n - 1) out @ [NUL] \<and>
            c_str msg = c_str (take (n - 1) out) \<and>
            (NUL \<notin> set out \<longrightarrow> c_str msg = take (n - 1) out) \<and>
            (NUL \<notin> set out \<and> length out < n \<longrightarrow> c_str msg = out) \<and>
            (NUL \<notin> set out \<and> n \<le> length out \<longrightarrow>
               length (c_str msg) = n - 1 \<and> msg ! (n - 1) = NUL)"
proof -
  define out where "out = render E fmt ap"
  define n where "n = USP_ERR_MAXLEN E"
  define msg where "msg = USP_ERR_GetMessage (USP_ERR_SetMessage E fmt ap s)"
  have n: "0 < n" "length (usp_error s) = n"
    using assms by (simp_all add: n_def)
  have msg: "msg = (vsnprintf (usp_error s) n out)[n - 1 := NUL]"
    unfolding msg_def USP_ERR_GetMessage_def n_def out_def
    using assms(3) by (rule SetMessage_primary_buf)
  have len: "length msg = n"
    unfolding msg using n by (rule stored_length)
  have pre: "take (Suc (min (length out) (n - 1))) msg = take (n - 1) out @ [NUL]"
    unfolding msg using n by (rule stored_prefix)
  have str: "c_str msg = c_str (take (n - 1) out)"
    unfolding msg using n by (rule stored_c_str)
  have clean: "c_str msg = take (n - 1) out" if "NUL \<notin> set out"
  proof -
    from that have "NUL \<notin> set (take (n - 1) out)"
      by (auto dest: in_set_takeD)
    then show ?thesis
      by (simp add: str c_str_no_NUL)
  qed
  have last: "msg ! (n - 1) = NUL"
    unfolding msg using n by (simp add: vsnprintf_def min_def)
  have fits: "c_str msg = out" if "NUL \<notin> set out" "length out < n"
    using that clean by simp
  have cut: "length (c_str msg) = n - 1" if "NUL \<notin> set out" "n \<le> length out"
    using that clean by simp
  show ?thesis
    unfolding Let_def out_def [symmetric] n_def [symmetric] msg_def [symmetric]
    using len pre str clean fits cut last by blast
qed

text \<open>
  The scenario of the specification, in an array of 32 bytes, and the same message in an
  array of 8 bytes.
\<close>

theorem SetMessage_primary_stores_rendering_witness:
  "0 < USP_ERR_MAXLEN (demo_env 32) \<and>
   length (usp_error (demo_state (usp_error_at_start (demo_env 32)) 1 False 0)) =
     USP_ERR_MAXLEN (demo_env 32) \<and>
   IsDataModelThread (demo_env 32)
     (caller_thread (demo_state (usp_error_at_start (demo_env 32)) 1 False 0))
     ''USP_ERR_SetMessage'' \<and>
   c_str (USP_ERR_GetMessage
     (USP_ERR_SetMessage (demo_env 32) ''file %s not found'' [VA_str ''config.xml'']
        (demo_state (usp_error_at_start (demo_env 32)) 1 False 0))) =
     ''file config.xml not found'' \<and>
   c_str (USP_ERR_GetMessage
     (USP_ERR_SetMessage (demo_env 8) ''file %s not found'' [VA_str ''config.xml'']
        (demo_state (usp_error_at_start (demo_env 8)) 1 False 0))) = ''file co''"
proof -
  let ?s = "demo_state (usp_error_at_start (demo_env 32)) 1 False 0"
  let ?t = "demo_state (usp_error_at_start (demo_env 8)) 1 False 0"
  have h1: "0 < USP_ERR_MAXLEN (demo_env 32)"
    by (simp add: demo_env_def)
  have h2: "length (usp_error ?s) = USP_ERR_MAXLEN (demo_env 32)"
    by (simp add: demo_env_def demo_state_def usp_error_at_start_def)
  have h3: "IsDataModelThread (demo_env 32) (caller_thread ?s) ''USP_ERR_SetMessage''"
    by (simp add: demo_env_def demo_state_def)
  have r: "render (demo_env n) ''file %s not found'' [VA_str ''config.xml''] =
      ''file config.xml not found''" for n
    by (simp add: demo_env_def c_str_def)
  have g1: "0 < USP_ERR_MAXLEN (demo_env 8)"
    by (simp add: demo_env_def)
  have g2: "length (usp_error ?t) = USP_ERR_MAXLEN (demo_env 8)"
    by (simp add: demo_env_def demo_state_def usp_error_at_start_def)
  have g3: "IsDataModelThread (demo_env 8) (caller_thread ?t) ''USP_ERR_SetMessage''"
    by (simp add: demo_env_def demo_state_def)
  have c: "c_str ''file config.xml not found'' = ''file config.xml not found''"
    "c_str ''file co'' = ''file co''"
    by (simp_all add: c_str_def)
  have m32: "USP_ERR_MAXLEN (demo_env 32) = 32" and m8: "USP_ERR_MAXLEN (demo_env 8) = 8"
    by (simp_all add: demo_env_def)
  from SetMessage_primary_stores_rendering [OF h1 h2 h3, of "''file %s not found''" "[VA_str ''config.xml'']"]
  have a: "c_str (USP_ERR_GetMessage
     (USP_ERR_SetMessage (demo_env 32) ''file %s not found'' [VA_str ''config.xml''] ?s)) =
     ''file config.xml not found''"
    by (simp add: Let_def r m32 c)
  from SetMessage_primary_stores_rendering [OF g1 g2 g3, of "''file %s not found''" "[VA_str ''config.xml'']"]
  have b: "c_str (USP_ERR_GetMessage
     (USP_ERR_SetMessage (demo_env 8) ''file %s not found'' [VA_str ''config.xml''] ?t)) =
     ''file co''"
    by (simp add: Let_def r m8 c)
  show ?thesis
    using h1 h2 h3 a b by blast
qed

subsection \<open>Setting the message on any other thread\<close>

text \<open>
  Claim C2. When \<^verbatim>\<open>USP_ERR_SetMessage\<close> is called by a thread that the classifier does
  not accept as the data model thread, the static array is left as it was, whatever the
  format, its arguments and the bytes on the stack: \<^verbatim>\<open>USP_ERR_GetMessage\<close> returns the
  same contents before and after the call. The text formatted into \<^verbatim>\<open>local_buf\<close> reaches
  the log only.
\<close>

theorem SetMessage_other_thread_frame:
  assumes "\<not> IsDataModelThread E (caller_thread s) ''USP_ERR_SetMessage''"
  shows "usp_error (USP_ERR_SetMessage E fmt ap s) = usp_error s \<and>
         USP_ERR_GetMessage (USP_ERR_SetMessage E fmt ap s) = USP_ERR_GetMessage s"
  using assms by (simp add: USP_ERR_GetMessage_def SetMessage_other_buf)

text \<open>
  Thread 3 sets a message while the array holds \<^verbatim>\<open>root cause A\<close>: the text goes to the
  log, the array is untouched.
\<close>

theorem SetMessage_other_thread_frame_witness:
  "\<not> IsDataModelThread (demo_env 16)
        (caller_thread (demo_state (''root cause A'' @ replicate 4 NUL) 1 False 3))
        ''USP_ERR_SetMessage'' \<and>
   c_str (USP_ERR_GetMessage
     (USP_ERR_SetMessage (demo_env 16) ''file %s not found'' [VA_str ''config.xml'']
        (demo_state (''root cause A'' @ replicate 4 NUL) 1 False 3))) = ''root cause A'' \<and>
   calls (USP_ERR_SetMessage (demo_env 16) ''file %s not found'' [VA_str ''config.xml'']
        (demo_state (''root cause A'' @ replicate 4 NUL) 1 False 3)) =
     [Call_IsDataModelThread ''USP_ERR_SetMessage'',
      Call_LOG_Puts kLogType_Debug ''file config.xml'']"
proof -
  let ?s = "demo_state (''root cause A'' @ replicate 4 NUL) 1 False 3"
  have h: "\<not> IsDataModelThread (demo_env 16) (caller_thread ?s) ''USP_ERR_SetMessage''"
    by (simp add: demo_env_def demo_state_def)
  have "c_str (USP_ERR_GetMessage ?s) = ''root cause A''"
    by (simp add: USP_ERR_GetMessage_def demo_state_def c_str_def)
  with SetMessage_other_thread_frame [OF h, of "''file %s not found''" "[VA_str ''config.xml'']"]
  have a: "c_str (USP_ERR_GetMessage
     (USP_ERR_SetMessage (demo_env 16) ''file %s not found'' [VA_str ''config.xml''] ?s)) =
     ''root cause A''"
    by simp
  have b: "calls (USP_ERR_SetMessage (demo_env 16) ''file %s not found'' [VA_str ''config.xml''] ?s) =
     [Call_IsDataModelThread ''USP_ERR_SetMessage'',
      Call_LOG_Puts kLogType_Debug ''file config.xml'']"
    by (simp add: USP_ERR_SetMessage_def OS_UTILS_IsDataModelThread_def Let_def
          USP_LOG_Puts_def USP_LOG_Callstack_def demo_env_def demo_state_def
          vsnprintf_def c_str_def upt_rec)
  show ?thesis
    using h a b by blast
qed

subsection \<open>Clearing the message\<close>

text \<open>
  Claim C6. In every state, \<^verbatim>\<open>USP_ERR_ClearMessage\<close> followed by \<^verbatim>\<open>USP_ERR_GetMessage\<close>
  yields the empty string.
\<close>

theorem ClearMessage_then_GetMessage_empty:
  "c_str (USP_ERR_GetMessage (USP_ERR_ClearMessage s)) = []"
  by (cases "usp_error s") (simp_all add: USP_ERR_GetMessage_def USP_ERR_ClearMessage_def c_str_def)

subsection \<open>Initialisation\<close>

text \<open>
  Claim C10. \<^verbatim>\<open>USP_ERR_Init\<close> installs \<^verbatim>\<open>SegFaultHandler\<close> for SIGSEGV and changes nothing
  else: the static array, and so what \<^verbatim>\<open>USP_ERR_GetMessage\<close> returns, the globals of the
  log and the calls made are the same before and after.
\<close>

theorem Init_only_installs_handler:
  "sigsegv_action (USP_ERR_Init s) = Handler_SegFaultHandler \<and>
   USP_ERR_GetMessage (USP_ERR_Init s) = USP_ERR_GetMessage s \<and>
   usp_error (USP_ERR_Init s) = usp_error s \<and>
   usp_log_level (USP_ERR_Init s) = usp_log_level s \<and>
   enable_callstack_debug (USP_ERR_Init s) = enable_callstack_debug s \<and>
   caller_thread (USP_ERR_Init s) = caller_thread s \<and>
   calls (USP_ERR_Init s) = calls s \<and>
   USP_ERR_Init s = s\<lparr>sigsegv_action := Handler_SegFaultHandler\<rparr>"
  by (simp add: USP_ERR_Init_def USP_ERR_GetMessage_def)

subsection \<open>Replacing an empty message\<close>

text \<open>
  Claim C4. \<^verbatim>\<open>USP_ERR_ReplaceEmptyMessage\<close> writes exactly when the static array holds the
  empty string. When the string in the array is not empty the call changes nothing at all,
  so \<^verbatim>\<open>USP_ERR_GetMessage\<close> returns the text it returned before. When it is empty the array
  afterwards holds the output of the format as \<^verbatim>\<open>vsnprintf\<close> stores it in an array of
  \<^verbatim>\<open>USP_ERR_MAXLEN\<close> bytes (the output, cut to \<^verbatim>\<open>USP_ERR_MAXLEN - 1\<close> bytes, and a
  terminator), so \<^verbatim>\<open>USP_ERR_GetMessage\<close> returns the newly rendered text.
\<close>

theorem ReplaceEmptyMessage_writes_iff_empty:
  assumes "0 < USP_ERR_MAXLEN E"
    and "length (usp_error s) = USP_ERR_MAXLEN E"
  shows "(c_str (USP_ERR_GetMessage s) \<noteq> [] \<longrightarrow>
            USP_ERR_ReplaceEmptyMessage E fmt ap s = s \<and>
            USP_ERR_GetMessage (USP_ERR_ReplaceEmptyMessage E fmt ap s) = USP_ERR_GetMessage s) \<and>
         (c_str (USP_ERR_GetMessage s) = [] \<longrightarrow>
            (let out = render E fmt ap;
                 n = USP_ERR_MAXLEN E;
                 msg = USP_ERR_GetMessage (USP_ERR_ReplaceEmptyMessage E fmt ap s)
             in length msg = n \<and>
                take (Suc (min (length out) (n - 1))) msg = take (n - 1) out @ [NUL] \<and>
                c_str msg = c_str (take (n - 1) out) \<and>
                (NUL \<notin> set out \<longrightarrow> c_str msg = take (n - 1) out) \<and>
                (NUL \<notin> set out \<and> length out < n \<longrightarrow> c_str msg = out)))"
proof -
  have ne: "usp_error s \<noteq> []"
    using assms by auto
  have first: "c_str (USP_ERR_GetMessage s) = [] \<longleftrightarrow> usp_error s ! 0 = NUL"
    unfolding USP_ERR_GetMessage_def using ne by (rule c_str_empty_iff)
  have keep: "USP_ERR_ReplaceEmptyMessage E fmt ap s = s" if "c_str (USP_ERR_GetMessage s) \<noteq> []"
    using that first by (simp add: Replace_nonempty)
  have written: "length msg = n \<and>
        take (Suc (min (length out) (n - 1))) msg = take (n - 1) out @ [NUL] \<and>
        c_str msg = c_str (take (n - 1) out) \<and>
        (NUL \<notin> set out \<longrightarrow> c_str msg = take (n - 1) out) \<and>
        (NUL \<notin> set out \<and> length out < n \<longrightarrow> c_str msg = out)"
    if empty: "c_str (USP_ERR_GetMessage s) = []"
      and out: "out = render E fmt ap" and n: "n = USP_ERR_MAXLEN E"
      and msg: "msg = USP_ERR_GetMessage (USP_ERR_ReplaceEmptyMessage E fmt ap s)"
    for out n msg
  proof -
    have sz: "0 < n" "length (usp_error s) = n"
      using assms by (simp_all add: n)
    have "usp_error s ! 0 = NUL"
      using empty first by simp
    then have m: "msg = (vsnprintf (usp_error s) n out)[n - 1 := NUL]"
      unfolding msg USP_ERR_GetMessage_def n out by (rule Replace_empty_buf)
    have str: "c_str msg = c_str (take (n - 1) out)"
      unfolding m using sz by (rule stored_c_str)
    have clean: "c_str msg = take (n - 1) out" if "NUL \<notin> set out"
    proof -
      from that have "NUL \<notin> set (take (n - 1) out)"
        by (auto dest: in_set_takeD)
      then show ?thesis
        by (simp add: str c_str_no_NUL)
    qed
    have "length msg = n"
      unfolding m using sz by (rule stored_length)
    moreover have "take (Suc (min (length out) (n - 1))) msg = take (n - 1) out @ [NUL]"
      unfolding m using sz by (rule stored_prefix)
    ultimately show ?thesis
      using str clean by auto
  qed
  show ?thesis
  proof (rule conjI)
    show "c_str (USP_ERR_GetMessage s) \<noteq> [] \<longrightarrow>
            USP_ERR_ReplaceEmptyMessage E fmt ap s = s \<and>
            USP_ERR_GetMessage (USP_ERR_ReplaceEmptyMessage E fmt ap s) = USP_ERR_GetMessage s"
      using keep by simp
  next
    show "c_str (USP_ERR_GetMessage s) = [] \<longrightarrow>
            (let out = render E fmt ap;
                 n = USP_ERR_MAXLEN E;
                 msg = USP_ERR_GetMessage (USP_ERR_ReplaceEmptyMessage E fmt ap s)
             in length msg = n \<and>
                take (Suc (min (length out) (n - 1))) msg = take (n - 1) out @ [NUL] \<and>
                c_str msg = c_str (take (n - 1) out) \<and>
                (NUL \<notin> set out \<longrightarrow> c_str msg = take (n - 1) out) \<and>
                (NUL \<notin> set out \<and> length out < n \<longrightarrow> c_str msg = out))"
    proof (rule impI)
      assume e: "c_str (USP_ERR_GetMessage s) = []"
      show "let out = render E fmt ap;
                 n = USP_ERR_MAXLEN E;
                 msg = USP_ERR_GetMessage (USP_ERR_ReplaceEmptyMessage E fmt ap s)
             in length msg = n \<and>
                take (Suc (min (length out) (n - 1))) msg = take (n - 1) out @ [NUL] \<and>
                c_str msg = c_str (take (n - 1) out) \<and>
                (NUL \<notin> set out \<longrightarrow> c_str msg = take (n - 1) out) \<and>
                (NUL \<notin> set out \<and> length out < n \<longrightarrow> c_str msg = out)"
        unfolding Let_def by (rule written [OF e refl refl refl])
    qed
  qed
qed

text \<open>
  The two scenarios of the specification in an array of 32 bytes: the array holds
  \<^verbatim>\<open>root cause A\<close> and keeps it; the array has been cleared and takes the new message.
\<close>

theorem ReplaceEmptyMessage_writes_iff_empty_witness:
  "0 < USP_ERR_MAXLEN (demo_env 32) \<and>
   length (usp_error (demo_state (''root cause A'' @ replicate 20 NUL) 1 False 0)) =
     USP_ERR_MAXLEN (demo_env 32) \<and>
   c_str (USP_ERR_GetMessage (demo_state (''root cause A'' @ replicate 20 NUL) 1 False 0)) \<noteq> [] \<and>
   c_str (USP_ERR_GetMessage
     (USP_ERR_ReplaceEmptyMessage (demo_env 32) ''generic failure'' []
        (demo_state (''root cause A'' @ replicate 20 NUL) 1 False 0))) = ''root cause A'' \<and>
   length (usp_error (USP_ERR_ClearMessage
     (demo_state (''root cause A'' @ replicate 20 NUL) 1 False 0))) = USP_ERR_MAXLEN (demo_env 32) \<and>
   c_str (USP_ERR_GetMessage (USP_ERR_ClearMessage
     (demo_state (''root cause A'' @ replicate 20 NUL) 1 False 0))) = [] \<and>
   c_str (USP_ERR_GetMessage
     (USP_ERR_ReplaceEmptyMessage (demo_env 32) ''fallback message'' []
        (USP_ERR_ClearMessage (demo_state (''root cause A'' @ replicate 20 NUL) 1 False 0)))) =
     ''fallback message''"
proof -
  let ?s = "demo_state (''root cause A'' @ replicate 20 NUL) 1 False 0"
  let ?c = "USP_ERR_ClearMessage ?s"
  have h1: "0 < USP_ERR_MAXLEN (demo_env 32)"
    by (simp add: demo_env_def)
  have h2: "length (usp_error ?s) = USP_ERR_MAXLEN (demo_env 32)"
    by (simp add: demo_env_def demo_state_def)
  have h3: "length (usp_error ?c) = USP_ERR_MAXLEN (demo_env 32)"
    by (simp add: demo_env_def demo_state_def USP_ERR_ClearMessage_def)
  have full: "c_str (USP_ERR_GetMessage ?s) = ''root cause A''"
    by (simp add: USP_ERR_GetMessage_def demo_state_def c_str_def)
  have cleared: "c_str (USP_ERR_GetMessage ?c) = []"
    by (simp add: USP_ERR_GetMessage_def USP_ERR_ClearMessage_def demo_state_def c_str_def)
  have r: "render (demo_env 32) ''fallback message'' [] = ''fallback message''"
    by (simp add: demo_env_def)
  have m: "USP_ERR_MAXLEN (demo_env 32) = 32"
    by (simp add: demo_env_def)
  have c: "c_str ''fallback message'' = ''fallback message''"
    by (simp add: c_str_def)
  from ReplaceEmptyMessage_writes_iff_empty [OF h1 h2, of "''generic failure''" "[]"] full
  have a: "c_str (USP_ERR_GetMessage
      (USP_ERR_ReplaceEmptyMessage (demo_env 32) ''generic failure'' [] ?s)) = ''root cause A''"
    by simp
  from ReplaceEmptyMessage_writes_iff_empty [OF h1 h3, of "''fallback message''" "[]"] cleared
  have b: "c_str (USP_ERR_GetMessage
      (USP_ERR_ReplaceEmptyMessage (demo_env 32) ''fallback message'' [] ?c)) = ''fallback message''"
    by (simp add: Let_def r m c)
  show ?thesis
    using h1 h2 h3 full cleared a b by simp
qed

subsection \<open>The call stack diagnostic\<close>

text \<open>
  Claim C9. In \<^verbatim>\<open>USP_ERR_SetMessage\<close> the call stack is printed exactly when
  \<^verbatim>\<open>enable_callstack_debug\<close> is set, whatever the log level: with the flag set and the log
  level below \<^verbatim>\<open>kLogLevel_Error\<close> the function prints the call stack and logs no message,
  and a message is logged exactly when the level is at least \<^verbatim>\<open>kLogLevel_Error\<close>, whatever
  the flag. \<^verbatim>\<open>USP_ERR_ReplaceEmptyMessage\<close> never prints the call stack.
\<close>

theorem callstack_follows_flag_only:
  "(Call_LOG_Callstack \<in> set (emitted s (USP_ERR_SetMessage E fmt ap s))) =
      enable_callstack_debug s \<and>
   (enable_callstack_debug s \<and> usp_log_level s < kLogLevel_Error E \<longrightarrow>
      emitted s (USP_ERR_SetMessage E fmt ap s) =
        [Call_IsDataModelThread ''USP_ERR_SetMessage'', Call_LOG_Callstack]) \<and>
   ((\<exists>txt. Call_LOG_Puts kLogType_Debug txt \<in> set (emitted s (USP_ERR_SetMessage E fmt ap s))) =
      (kLogLevel_Error E \<le> usp_log_level s)) \<and>
   Call_LOG_Callstack \<notin> set (emitted s (USP_ERR_ReplaceEmptyMessage E fmt ap s))"
proof -
  obtain line where set_calls: "emitted s (USP_ERR_SetMessage E fmt ap s) =
      Call_IsDataModelThread ''USP_ERR_SetMessage'' #
       (if usp_log_level s \<ge> kLogLevel_Error E then [Call_LOG_Puts kLogType_Debug line] else []) @
       (if enable_callstack_debug s then [Call_LOG_Callstack] else [])"
    using SetMessage_calls [of E fmt ap s] by (auto dest: emitted_append)
  obtain line' where rep_calls: "emitted s (USP_ERR_ReplaceEmptyMessage E fmt ap s) =
      (if usp_error s ! 0 = NUL \<and> usp_log_level s \<ge> kLogLevel_Error E
       then [Call_LOG_Puts kLogType_Debug line'] else [])"
    using Replace_calls [of E fmt ap s] by (auto dest: emitted_append)
  show ?thesis
    unfolding set_calls rep_calls by auto
qed

text \<open>
  The flag is set and the log is switched off (level 0, below \<^verbatim>\<open>kLogLevel_Error\<close> = 1):
  \<^verbatim>\<open>USP_ERR_SetMessage\<close> prints the call stack and nothing else; with the flag set and the
  log at error level \<^verbatim>\<open>USP_ERR_ReplaceEmptyMessage\<close> logs the message and no call stack.
\<close>

theorem callstack_follows_flag_only_witness:
  "enable_callstack_debug (demo_state (usp_error_at_start (demo_env 16)) 0 True 0) \<and>
   usp_log_level (demo_state (usp_error_at_start (demo_env 16)) 0 True 0) < kLogLevel_Error (demo_env 16) \<and>
   emitted (demo_state (usp_error_at_start (demo_env 16)) 0 True 0)
     (USP_ERR_SetMessage (demo_env 16) ''disk full'' []
        (demo_state (usp_error_at_start (demo_env 16)) 0 True 0)) =
     [Call_IsDataModelThread ''USP_ERR_SetMessage'', Call_LOG_Callstack] \<and>
   emitted (demo_state (usp_error_at_start (demo_env 16)) 1 True 0)
     (USP_ERR_ReplaceEmptyMessage (demo_env 16) ''disk full'' []
        (demo_state (usp_error_at_start (demo_env 16)) 1 True 0)) =
     [Call_LOG_Puts kLogType_Debug ''disk full'']"
proof -
  let ?s = "demo_state (usp_error_at_start (demo_env 16)) 0 True 0"
  have h1: "enable_callstack_debug ?s"
    by (simp add: demo_state_def)
  have h2: "usp_log_level ?s < kLogLevel_Error (demo_env 16)"
    by (simp add: demo_state_def demo_env_def)
  from callstack_follows_flag_only [of ?s "demo_env 16" "''disk full''" "[]"] h1 h2
  have a: "emitted ?s (USP_ERR_SetMessage (demo_env 16) ''disk full'' [] ?s) =
      [Call_IsDataModelThread ''USP_ERR_SetMessage'', Call_LOG_Callstack]"
    by blast
  have b: "emitted (demo_state (usp_error_at_start (demo_env 16)) 1 True 0)
     (USP_ERR_ReplaceEmptyMessage (demo_env 16) ''disk full'' []
        (demo_state (usp_error_at_start (demo_env 16)) 1 True 0)) =
     [Call_LOG_Puts kLogType_Debug ''disk full'']"
    by (simp add: emitted_def USP_ERR_ReplaceEmptyMessage_def Let_def USP_LOG_Puts_def
          demo_env_def demo_state_def usp_error_at_start_def vsnprintf_def c_str_def)
  show ?thesis
    using h1 h2 a b by blast
qed

subsection \<open>Fatal termination\<close>

text \<open>
  The log level decides whether \<^verbatim>\<open>USP_ERR_Terminate\<close> logs anything. With the log switched
  off (level 0, below \<^verbatim>\<open>kLogLevel_Error\<close> = 1) the call formats the message into the
  static array and aborts: no message, no call stack and no closing notice reach the log.
\<close>

theorem Terminate_below_error_level_logs_nothing:
  "usp_log_level (demo_state (usp_error_at_start (demo_env 16)) 0 False 0)
     < kLogLevel_Error (demo_env 16) \<and>
   USP_ERR_Terminate (demo_env 16) ''out of memory'' []
       (demo_state (usp_error_at_start (demo_env 16)) 0 False 0) =
     Aborted (demo_state (''out of memory'' @ replicate 3 NUL) 0 False 0) \<and>
   emitted (demo_state (usp_error_at_start (demo_env 16)) 0 False 0)
     (state_of (USP_ERR_Terminate (demo_env 16) ''out of memory'' []
        (demo_state (usp_error_at_start (demo_env 16)) 0 False 0))) = [] \<and>
   Call_LOG_Callstack \<notin> set (emitted (demo_state (usp_error_at_start (demo_env 16)) 0 False 0)
     (state_of (USP_ERR_Terminate (demo_env 16) ''out of memory'' []
        (demo_state (usp_error_at_start (demo_env 16)) 0 False 0)))) \<and>
   Call_LOG_Puts kLogType_Debug ''Exiting USP Agent'' \<notin>
     set (emitted (demo_state (usp_error_at_start (demo_env 16)) 0 False 0)
       (state_of (USP_ERR_Terminate (demo_env 16) ''out of memory'' []
          (demo_state (usp_error_at_start (demo_env 16)) 0 False 0))))"
  by (simp add: USP_ERR_Terminate_def Let_def abort_def emitted_def
        demo_env_def demo_state_def usp_error_at_start_def vsnprintf_def eval_nat_numeral)

text \<open>
  Claim C3, as the code has it. Every call of \<^verbatim>\<open>USP_ERR_Terminate\<close> formats the message
  into the static array (the output cut to \<^verbatim>\<open>USP_ERR_MAXLEN - 1\<close> bytes, and a terminator)
  and ends in \<^verbatim>\<open>abort()\<close>: it never returns. When the log level is at least
  \<^verbatim>\<open>kLogLevel_Error\<close> it makes, in this order and before aborting, exactly three calls to the
  log: the formatted text, the call stack, and the notice \<^verbatim>\<open>Exiting USP Agent\<close>. When the
  log level is lower it makes none of them.
\<close>

theorem Terminate_formats_logs_if_enabled_aborts:
  assumes "0 < USP_ERR_MAXLEN E"
    and "length (usp_error s) = USP_ERR_MAXLEN E"
  shows "is_Aborted (USP_ERR_Terminate E fmt ap s) \<and>
         (let out = render E fmt ap;
              n = USP_ERR_MAXLEN E;
              s' = state_of (USP_ERR_Terminate E fmt ap s);
              msg = usp_error s'
          in length msg = n \<and>
             take (Suc (min (length out) (n - 1))) msg = take (n - 1) out @ [NUL] \<and>
             c_str msg = c_str (take (n - 1) out) \<and>
             emitted s s' =
               (if kLogLevel_Error E \<le> usp_log_level s
                then [Call_LOG_Puts kLogType_Debug (c_str msg),
                      Call_LOG_Callstack,
                      Call_LOG_Puts kLogType_Debug ''Exiting USP Agent'']
                else []))"
proof -
  define out where "out = render E fmt ap"
  define n where "n = USP_ERR_MAXLEN E"
  define s' where "s' = state_of (USP_ERR_Terminate E fmt ap s)"
  define msg where "msg = usp_error s'"
  have sz: "0 < n" "length (usp_error s) = n"
    using assms by (simp_all add: n_def)
  have m: "msg = (vsnprintf (usp_error s) n out)[n - 1 := NUL]"
    unfolding msg_def s'_def n_def out_def by (rule Terminate_buf)
  have ab: "is_Aborted (USP_ERR_Terminate E fmt ap s)"
    using Terminate_aborts [of E fmt ap s] by auto
  have len: "length msg = n"
    unfolding m using sz by (rule stored_length)
  have pre: "take (Suc (min (length out) (n - 1))) msg = take (n - 1) out @ [NUL]"
    unfolding m using sz by (rule stored_prefix)
  have str: "c_str msg = c_str (take (n - 1) out)"
    unfolding m using sz by (rule stored_c_str)
  have log: "emitted s s' =
      (if kLogLevel_Error E \<le> usp_log_level s
       then [Call_LOG_Puts kLogType_Debug (c_str msg),
             Call_LOG_Callstack,
             Call_LOG_Puts kLogType_Debug ''Exiting USP Agent'']
       else [])"
    unfolding msg_def s'_def by (rule emitted_append) (rule Terminate_calls)
  show ?thesis
    unfolding Let_def out_def [symmetric] n_def [symmetric] s'_def [symmetric] msg_def [symmetric]
    using ab len pre str log by blast
qed

text \<open>At error level the three calls to the log are made, and the process aborts.\<close>

theorem Terminate_formats_logs_if_enabled_aborts_witness:
  "0 < USP_ERR_MAXLEN (demo_env 16) \<and>
   length (usp_error (demo_state (usp_error_at_start (demo_env 16)) 1 False 0)) =
     USP_ERR_MAXLEN (demo_env 16) \<and>
   is_Aborted (USP_ERR_Terminate (demo_env 16) ''out of memory'' []
     (demo_state (usp_error_at_start (demo_env 16)) 1 False 0)) \<and>
   emitted (demo_state (usp_error_at_start (demo_env 16)) 1 False 0)
     (state_of (USP_ERR_Terminate (demo_env 16) ''out of memory'' []
        (demo_state (usp_error_at_start (demo_env 16)) 1 False 0))) =
     [Call_LOG_Puts kLogType_Debug ''out of memory'',
      Call_LOG_Callstack,
      Call_LOG_Puts kLogType_Debug ''Exiting USP Agent'']"
proof -
  let ?s = "demo_state (usp_error_at_start (demo_env 16)) 1 False 0"
  have h1: "0 < USP_ERR_MAXLEN (demo_env 16)"
    by (simp add: demo_env_def)
  have h2: "length (usp_error ?s) = USP_ERR_MAXLEN (demo_env 16)"
    by (simp add: demo_env_def demo_state_def usp_error_at_start_def)
  have r: "render (demo_env 16) ''out of memory'' [] = ''out of memory''"
    by (simp add: demo_env_def)
  have m: "USP_ERR_MAXLEN (demo_env 16) = 16" "kLogLevel_Error (demo_env 16) = 1"
    "usp_log_level ?s = 1"
    by (simp_all add: demo_env_def demo_state_def)
  have c: "c_str ''out of memory'' = ''out of memory''"
    by (simp add: c_str_def)
  from Terminate_formats_logs_if_enabled_aborts [OF h1 h2, of "''out of memory''" "[]"]
  have "is_Aborted (USP_ERR_Terminate (demo_env 16) ''out of memory'' [] ?s) \<and>
    emitted ?s (state_of (USP_ERR_Terminate (demo_env 16) ''out of memory'' [] ?s)) =
     [Call_LOG_Puts kLogType_Debug ''out of memory'',
      Call_LOG_Callstack,
      Call_LOG_Puts kLogType_Debug ''Exiting USP Agent'']"
    by (simp add: Let_def r m c)
  then show ?thesis
    using h1 h2 by blast
qed

subsection \<open>The static array always holds a terminated string\<close>

lemma empty_at_start: "c_str (usp_error_at_start E) = []"
  by (cases "USP_ERR_MAXLEN E") (simp_all add: usp_error_at_start_def c_str_def)

lemma terminated_at_start: "0 < USP_ERR_MAXLEN E \<Longrightarrow> terminated_in E (usp_error_at_start E)"
  by (cases "USP_ERR_MAXLEN E") (simp_all add: terminated_in_def usp_error_at_start_def c_str_def)

lemma SetMessage_terminated:
  assumes "terminated_in E (usp_error s)"
  shows "terminated_in E (usp_error (USP_ERR_SetMessage E fmt ap s))"
proof (cases "IsDataModelThread E (caller_thread s) ''USP_ERR_SetMessage''")
  case True
  have "0 < USP_ERR_MAXLEN E" "length (usp_error s) = USP_ERR_MAXLEN E"
    using assms by (simp_all add: terminated_in_def)
  then show ?thesis
    unfolding SetMessage_primary_buf [OF True] by (rule stored_terminated)
next
  case False
  then show ?thesis
    using assms by (simp add: SetMessage_other_buf)
qed

lemma ReplaceEmptyMessage_terminated:
  assumes "terminated_in E (usp_error s)"
  shows "terminated_in E (usp_error (USP_ERR_ReplaceEmptyMessage E fmt ap s))"
proof (cases "usp_error s ! 0 = NUL")
  case True
  have "0 < USP_ERR_MAXLEN E" "length (usp_error s) = USP_ERR_MAXLEN E"
    using assms by (simp_all add: terminated_in_def)
  then show ?thesis
    unfolding Replace_empty_buf [OF True] by (rule stored_terminated)
next
  case False
  then show ?thesis
    using assms by (simp add: Replace_nonempty)
qed

lemma ClearMessage_terminated:
  assumes "terminated_in E (usp_error s)"
  shows "terminated_in E (usp_error (USP_ERR_ClearMessage s))"
proof -
  have "c_str ((usp_error s)[0 := NUL]) = []"
    by (cases "usp_error s") (simp_all add: c_str_def)
  then show ?thesis
    using assms by (simp add: terminated_in_def USP_ERR_ClearMessage_def)
qed

lemma Terminate_terminated:
  assumes "terminated_in E (usp_error s)"
  shows "terminated_in E (usp_error (state_of (USP_ERR_Terminate E fmt ap s)))"
proof -
  have "0 < USP_ERR_MAXLEN E" "length (usp_error s) = USP_ERR_MAXLEN E"
    using assms by (simp_all add: terminated_in_def)
  then show ?thesis
    unfolding Terminate_buf by (rule stored_terminated)
qed

lemma call_api_terminated:
  assumes "terminated_in E (usp_error s)"
  shows "terminated_in E (usp_error (state_of (call_api E c s)))"
proof (cases c)
  case Do_Init
  then show ?thesis using assms by (simp add: USP_ERR_Init_def)
next
  case (Do_SetMessage fmt ap)
  then show ?thesis using assms by (simp add: SetMessage_terminated)
next
  case Do_ClearMessage
  then show ?thesis using assms by (simp add: ClearMessage_terminated)
next
  case (Do_ReplaceEmptyMessage fmt ap)
  then show ?thesis using assms by (simp add: ReplaceEmptyMessage_terminated)
next
  case (Do_Terminate fmt ap)
  then show ?thesis using assms by (simp add: Terminate_terminated)
qed

lemma run_terminated:
  "terminated_in E (usp_error s) \<Longrightarrow> terminated_in E (usp_error (state_of (run E cs s)))"
proof (induction cs arbitrary: s)
  case Nil
  then show ?case by simp
next
  case (Cons tc cs)
  obtain t c where tc: "tc = (t, c)"
    by (cases tc)
  from Cons.prems have "terminated_in E (usp_error (s\<lparr>caller_thread := t\<rparr>))"
    by simp
  then have step: "terminated_in E (usp_error (state_of (call_api E c (s\<lparr>caller_thread := t\<rparr>))))"
    by (rule call_api_terminated)
  show ?case
  proof (cases "call_api E c (s\<lparr>caller_thread := t\<rparr>)")
    case (Returned s')
    with step have "terminated_in E (usp_error s')" by simp
    then have "terminated_in E (usp_error (state_of (run E cs s')))"
      by (rule Cons.IH)
    then show ?thesis by (simp add: tc Returned)
  next
    case (Aborted s')
    with step show ?thesis by (simp add: tc)
  qed
qed

text \<open>
  Claim C5. The static array is always either empty or a terminated string shorter than
  \<^verbatim>\<open>USP_ERR_MAXLEN\<close>, inside an array of exactly \<^verbatim>\<open>USP_ERR_MAXLEN\<close> bytes. This holds for
  the array as the process starts with it, which is empty, and each of \<^verbatim>\<open>USP_ERR_SetMessage\<close> (on any
  thread), \<^verbatim>\<open>USP_ERR_ReplaceEmptyMessage\<close>, \<^verbatim>\<open>USP_ERR_ClearMessage\<close>,
  \<^verbatim>\<open>USP_ERR_Terminate\<close> and \<^verbatim>\<open>USP_ERR_Init\<close> keeps it, whatever the format produces: a
  longer output is cut and the array never grows. Hence it holds after every sequence of
  calls made by any threads.
\<close>

theorem usp_error_always_terminated:
  assumes "0 < USP_ERR_MAXLEN E"
  shows "c_str (usp_error_at_start E) = [] \<and>
         terminated_in E (usp_error_at_start E) \<and>
         (terminated_in E (usp_error s) \<longrightarrow>
            terminated_in E (usp_error (USP_ERR_SetMessage E fmt ap s)) \<and>
            terminated_in E (usp_error (USP_ERR_ReplaceEmptyMessage E fmt ap s)) \<and>
            terminated_in E (usp_error (USP_ERR_ClearMessage s)) \<and>
            terminated_in E (usp_error (state_of (USP_ERR_Terminate E fmt ap s))) \<and>
            terminated_in E (usp_error (USP_ERR_Init s)) \<and>
            terminated_in E (usp_error (state_of (run E cs s)))) \<and>
         (usp_error s = usp_error_at_start E \<longrightarrow>
            terminated_in E (usp_error (state_of (run E cs s))))"
proof -
  have start: "terminated_in E (usp_error_at_start E)"
    using assms by (rule terminated_at_start)
  have init: "terminated_in E (usp_error (USP_ERR_Init s))" if "terminated_in E (usp_error s)"
    using that by (simp add: USP_ERR_Init_def)
  have from_start: "terminated_in E (usp_error (state_of (run E cs s)))"
    if "usp_error s = usp_error_at_start E"
    using start that by (intro run_terminated) simp
  have keep: "terminated_in E (usp_error (USP_ERR_SetMessage E fmt ap s)) \<and>
      terminated_in E (usp_error (USP_ERR_ReplaceEmptyMessage E fmt ap s)) \<and>
      terminated_in E (usp_error (USP_ERR_ClearMessage s)) \<and>
      terminated_in E (usp_error (state_of (USP_ERR_Terminate E fmt ap s))) \<and>
      terminated_in E (usp_error (USP_ERR_Init s)) \<and>
      terminated_in E (usp_error (state_of (run E cs s)))"
    if inv: "terminated_in E (usp_error s)"
  proof (intro conjI)
    show "terminated_in E (usp_error (USP_ERR_SetMessage E fmt ap s))"
      using inv by (rule SetMessage_terminated)
    show "terminated_in E (usp_error (USP_ERR_ReplaceEmptyMessage E fmt ap s))"
      using inv by (rule ReplaceEmptyMessage_terminated)
    show "terminated_in E (usp_error (USP_ERR_ClearMessage s))"
      using inv by (rule ClearMessage_terminated)
    show "terminated_in E (usp_error (state_of (USP_ERR_Terminate E fmt ap s)))"
      using inv by (rule Terminate_terminated)
    show "terminated_in E (usp_error (USP_ERR_Init s))"
      using inv by (rule init)
    show "terminated_in E (usp_error (state_of (run E cs s)))"
      using inv by (rule run_terminated)
  qed
  show ?thesis
    using start keep from_start by (simp add: empty_at_start)
qed

text \<open>
  An array of 8 bytes, starting empty: thread 0 sets a message of 25 bytes, thread 3 sets
  another, the message is cleared and replaced, and the process is terminated with a long
  message. The array holds 7 bytes and a terminator at the end.
\<close>

theorem usp_error_always_terminated_witness:
  "0 < USP_ERR_MAXLEN (demo_env 8) \<and>
   terminated_in (demo_env 8) (usp_error_at_start (demo_env 8)) \<and>
   usp_error (demo_state (usp_error_at_start (demo_env 8)) 1 False 0) =
     usp_error_at_start (demo_env 8) \<and>
   terminated_in (demo_env 8)
     (usp_error (USP_ERR_SetMessage (demo_env 8) ''file %s not found'' [VA_str ''config.xml'']
        (demo_state (usp_error_at_start (demo_env 8)) 1 False 0))) \<and>
   terminated_in (demo_env 8) (usp_error (state_of (run (demo_env 8)
     [(0, Do_SetMessage ''file %s not found'' [VA_str ''config.xml'']),
      (3, Do_SetMessage ''timeout'' []),
      (0, Do_ClearMessage),
      (3, Do_ReplaceEmptyMessage ''fallback message'' []),
      (0, Do_Terminate ''Failed assert at %s'' [VA_str ''main''])]
     (demo_state (usp_error_at_start (demo_env 8)) 1 False 0)))) \<and>
   usp_error (state_of (run (demo_env 8)
     [(0, Do_SetMessage ''file %s not found'' [VA_str ''config.xml'']),
      (3, Do_SetMessage ''timeout'' []),
      (0, Do_ClearMessage),
      (3, Do_ReplaceEmptyMessage ''fallback message'' []),
      (0, Do_Terminate ''Failed assert at %s'' [VA_str ''main''])]
     (demo_state (usp_error_at_start (demo_env 8)) 1 False 0))) = ''Failed '' @ [NUL]"
proof -
  let ?E = "demo_env 8"
  let ?s = "demo_state (usp_error_at_start ?E) 1 False 0"
  let ?cs = "[(0, Do_SetMessage ''file %s not found'' [VA_str ''config.xml'']),
      (3, Do_SetMessage ''timeout'' []),
      (0, Do_ClearMessage),
      (3, Do_ReplaceEmptyMessage ''fallback message'' []),
      (0, Do_Terminate ''Failed assert at %s'' [VA_str ''main''])]"
  have h: "0 < USP_ERR_MAXLEN ?E"
    by (simp add: demo_env_def)
  have e: "usp_error ?s = usp_error_at_start ?E"
    by (simp add: demo_state_def)
  note inst = usp_error_always_terminated [OF h, of ?s "''file %s not found''" "[VA_str ''config.xml'']" ?cs]
  have a: "terminated_in ?E (usp_error_at_start ?E)"
    using inst by blast
  have b: "terminated_in ?E (usp_error (USP_ERR_SetMessage ?E ''file %s not found''
      [VA_str ''config.xml''] ?s))"
    using inst a e by simp
  have c: "terminated_in ?E (usp_error (state_of (run ?E ?cs ?s)))"
    using inst e by blast
  have d: "usp_error (state_of (run ?E ?cs ?s)) = ''Failed '' @ [NUL]"
    by (simp add: USP_ERR_SetMessage_def USP_ERR_ReplaceEmptyMessage_def USP_ERR_ClearMessage_def
          USP_ERR_Terminate_def OS_UTILS_IsDataModelThread_def Let_def abort_def
          USP_LOG_Puts_def USP_LOG_Callstack_def demo_env_def demo_state_def
          usp_error_at_start_def vsnprintf_def c_str_def eval_nat_numeral)
  show ?thesis
    using h a e b c d by blast
qed

subsection \<open>Which functions ask for the calling thread\<close>

lemma ClearMessage_calls: "calls (USP_ERR_ClearMessage s) = calls s"
  by (simp add: USP_ERR_ClearMessage_def)

lemma thread_irrelevant:
  "usp_error (state_of (USP_ERR_Terminate E fmt ap (s\<lparr>caller_thread := t\<rparr>))) =
     usp_error (state_of (USP_ERR_Terminate E fmt ap s))"
  "usp_error (USP_ERR_ReplaceEmptyMessage E fmt ap (s\<lparr>caller_thread := t\<rparr>)) =
     usp_error (USP_ERR_ReplaceEmptyMessage E fmt ap s)"
  "usp_error (USP_ERR_ClearMessage (s\<lparr>caller_thread := t\<rparr>)) =
     usp_error (USP_ERR_ClearMessage s)"
  by (simp_all add: USP_ERR_Terminate_def USP_ERR_ReplaceEmptyMessage_def
        USP_ERR_ClearMessage_def Let_def abort_def USP_LOG_Puts_def USP_LOG_Callstack_def)

text \<open>
  Claim C8. Only \<^verbatim>\<open>USP_ERR_SetMessage\<close> calls \<^verbatim>\<open>OS_UTILS_IsDataModelThread\<close>: in every
  state and on every thread it makes that call, and \<^verbatim>\<open>USP_ERR_Terminate\<close>,
  \<^verbatim>\<open>USP_ERR_ReplaceEmptyMessage\<close> and \<^verbatim>\<open>USP_ERR_ClearMessage\<close> never make it; what
  these three leave in the static array does not depend on the calling thread. So when the
  calling thread is not the data model thread, \<^verbatim>\<open>USP_ERR_SetMessage\<close> leaves the static
  array as it was, while \<^verbatim>\<open>USP_ERR_Terminate\<close> stores its message there,
  \<^verbatim>\<open>USP_ERR_ReplaceEmptyMessage\<close> stores its message there when the array is empty, and
  \<^verbatim>\<open>USP_ERR_ClearMessage\<close> puts a terminator into the first cell.
\<close>

theorem only_SetMessage_asks_classifier:
  "Call_IsDataModelThread ''USP_ERR_SetMessage'' \<in>
     set (emitted s (USP_ERR_SetMessage E fmt ap s)) \<and>
   Call_IsDataModelThread c \<notin> set (emitted s (state_of (USP_ERR_Terminate E fmt ap s))) \<and>
   Call_IsDataModelThread c \<notin> set (emitted s (USP_ERR_ReplaceEmptyMessage E fmt ap s)) \<and>
   Call_IsDataModelThread c \<notin> set (emitted s (USP_ERR_ClearMessage s)) \<and>
   usp_error (state_of (USP_ERR_Terminate E fmt ap (s\<lparr>caller_thread := t\<rparr>))) =
     usp_error (state_of (USP_ERR_Terminate E fmt ap s)) \<and>
   usp_error (USP_ERR_ReplaceEmptyMessage E fmt ap (s\<lparr>caller_thread := t\<rparr>)) =
     usp_error (USP_ERR_ReplaceEmptyMessage E fmt ap s) \<and>
   usp_error (USP_ERR_ClearMessage (s\<lparr>caller_thread := t\<rparr>)) =
     usp_error (USP_ERR_ClearMessage s) \<and>
   usp_error (USP_ERR_ClearMessage s) = (usp_error s)[0 := NUL] \<and>
   (\<not> IsDataModelThread E (caller_thread s) ''USP_ERR_SetMessage'' \<longrightarrow>
      usp_error (USP_ERR_SetMessage E fmt ap s) = usp_error s) \<and>
   (0 < USP_ERR_MAXLEN E \<and> length (usp_error s) = USP_ERR_MAXLEN E \<longrightarrow>
      (let out = render E fmt ap; n = USP_ERR_MAXLEN E; k = Suc (min (length out) (n - 1))
       in take k (usp_error (state_of (USP_ERR_Terminate E fmt ap s))) = take (n - 1) out @ [NUL] \<and>
          (usp_error s ! 0 = NUL \<longrightarrow>
             take k (usp_error (USP_ERR_ReplaceEmptyMessage E fmt ap s)) =
               take (n - 1) out @ [NUL]) \<and>
          usp_error (USP_ERR_ClearMessage s) ! 0 = NUL))"
proof -
  obtain line where "calls (USP_ERR_SetMessage E fmt ap s) =
     calls s @ Call_IsDataModelThread ''USP_ERR_SetMessage'' #
       (if usp_log_level s \<ge> kLogLevel_Error E then [Call_LOG_Puts kLogType_Debug line] else []) @
       (if enable_callstack_debug s then [Call_LOG_Callstack] else [])"
    using SetMessage_calls [of E fmt ap s] by blast
  then have asks: "Call_IsDataModelThread ''USP_ERR_SetMessage'' \<in>
      set (emitted s (USP_ERR_SetMessage E fmt ap s))"
    by (simp add: emitted_def)
  have t_calls: "Call_IsDataModelThread c \<notin> set (emitted s (state_of (USP_ERR_Terminate E fmt ap s)))"
    unfolding emitted_append [OF Terminate_calls] by simp
  obtain line' where "calls (USP_ERR_ReplaceEmptyMessage E fmt ap s) =
     calls s @ (if usp_error s ! 0 = NUL \<and> usp_log_level s \<ge> kLogLevel_Error E
                then [Call_LOG_Puts kLogType_Debug line'] else [])"
    using Replace_calls [of E fmt ap s] by blast
  then have r_calls: "Call_IsDataModelThread c \<notin> set (emitted s (USP_ERR_ReplaceEmptyMessage E fmt ap s))"
    by (simp add: emitted_def)
  have c_calls: "Call_IsDataModelThread c \<notin> set (emitted s (USP_ERR_ClearMessage s))"
    by (simp add: emitted_def ClearMessage_calls)
  have c_buf: "usp_error (USP_ERR_ClearMessage s) = (usp_error s)[0 := NUL]"
    by (simp add: USP_ERR_ClearMessage_def)
  have kept: "usp_error (USP_ERR_SetMessage E fmt ap s) = usp_error s"
    if "\<not> IsDataModelThread E (caller_thread s) ''USP_ERR_SetMessage''"
    using that by (rule SetMessage_other_buf)
  have writes: "let out = render E fmt ap; n = USP_ERR_MAXLEN E; k = Suc (min (length out) (n - 1))
       in take k (usp_error (state_of (USP_ERR_Terminate E fmt ap s))) = take (n - 1) out @ [NUL] \<and>
          (usp_error s ! 0 = NUL \<longrightarrow>
             take k (usp_error (USP_ERR_ReplaceEmptyMessage E fmt ap s)) =
               take (n - 1) out @ [NUL]) \<and>
          usp_error (USP_ERR_ClearMessage s) ! 0 = NUL"
    if wf: "0 < USP_ERR_MAXLEN E \<and> length (usp_error s) = USP_ERR_MAXLEN E"
  proof -
    define out where "out = render E fmt ap"
    define n where "n = USP_ERR_MAXLEN E"
    define k where "k = Suc (min (length out) (n - 1))"
    have sz: "0 < n" "length (usp_error s) = n"
      using wf by (simp_all add: n_def)
    have t_buf: "take k (usp_error (state_of (USP_ERR_Terminate E fmt ap s))) = take (n - 1) out @ [NUL]"
      unfolding Terminate_buf k_def n_def [symmetric] out_def [symmetric]
      using sz by (rule stored_prefix)
    have r_buf: "take k (usp_error (USP_ERR_ReplaceEmptyMessage E fmt ap s)) = take (n - 1) out @ [NUL]"
      if "usp_error s ! 0 = NUL"
      unfolding Replace_empty_buf [OF that] k_def n_def [symmetric] out_def [symmetric]
      using sz by (rule stored_prefix)
    have c_first: "usp_error (USP_ERR_ClearMessage s) ! 0 = NUL"
      using sz by (simp add: USP_ERR_ClearMessage_def)
    show ?thesis
      unfolding Let_def out_def [symmetric] n_def [symmetric] k_def [symmetric]
      using t_buf r_buf c_first by simp
  qed
  show ?thesis
    using asks t_calls r_calls c_calls c_buf kept writes
    by (simp add: thread_irrelevant)
qed

text \<open>
  Thread 3 is not the data model thread. With \<^verbatim>\<open>root cause A\<close> in an array of 16 bytes,
  its call of \<^verbatim>\<open>USP_ERR_SetMessage\<close> leaves the message, its call of
  \<^verbatim>\<open>USP_ERR_ClearMessage\<close> empties it, and its call of \<^verbatim>\<open>USP_ERR_Terminate\<close>
  overwrites it. On thread 0, the data model thread, \<^verbatim>\<open>USP_ERR_SetMessage\<close> asks the
  classifier and \<^verbatim>\<open>USP_ERR_Terminate\<close> does not.
\<close>

theorem only_SetMessage_asks_classifier_witness:
  "0 < USP_ERR_MAXLEN (demo_env 16) \<and>
   length (usp_error (demo_state (''root cause A'' @ replicate 4 NUL) 1 False 3)) =
     USP_ERR_MAXLEN (demo_env 16) \<and>
   \<not> IsDataModelThread (demo_env 16)
      (caller_thread (demo_state (''root cause A'' @ replicate 4 NUL) 1 False 3))
      ''USP_ERR_SetMessage'' \<and>
   c_str (usp_error (USP_ERR_SetMessage (demo_env 16) ''timeout'' []
      (demo_state (''root cause A'' @ replicate 4 NUL) 1 False 3))) = ''root cause A'' \<and>
   c_str (usp_error (USP_ERR_ClearMessage
      (demo_state (''root cause A'' @ replicate 4 NUL) 1 False 3))) = [] \<and>
   take 8 (usp_error (state_of (USP_ERR_Terminate (demo_env 16) ''timeout'' []
      (demo_state (''root cause A'' @ replicate 4 NUL) 1 False 3)))) = ''timeout'' @ [NUL] \<and>
   IsDataModelThread (demo_env 16)
      (caller_thread (demo_state (''root cause A'' @ replicate 4 NUL) 1 False 0))
      ''USP_ERR_SetMessage'' \<and>
   Call_IsDataModelThread ''USP_ERR_SetMessage'' \<in>
     set (emitted (demo_state (''root cause A'' @ replicate 4 NUL) 1 False 0)
       (USP_ERR_SetMessage (demo_env 16) ''timeout'' []
          (demo_state (''root cause A'' @ replicate 4 NUL) 1 False 0))) \<and>
   Call_IsDataModelThread ''USP_ERR_Terminate'' \<notin>
     set (emitted (demo_state (''root cause A'' @ replicate 4 NUL) 1 False 0)
       (state_of (USP_ERR_Terminate (demo_env 16) ''timeout'' []
          (demo_state (''root cause A'' @ replicate 4 NUL) 1 False 0))))"
proof -
  let ?E = "demo_env 16"
  let ?s = "demo_state (''root cause A'' @ replicate 4 NUL) 1 False 3"
  let ?p = "demo_state (''root cause A'' @ replicate 4 NUL) 1 False 0"
  have h1: "0 < USP_ERR_MAXLEN ?E"
    by (simp add: demo_env_def)
  have h2: "length (usp_error ?s) = USP_ERR_MAXLEN ?E"
    by (simp add: demo_env_def demo_state_def)
  have h3: "\<not> IsDataModelThread ?E (caller_thread ?s) ''USP_ERR_SetMessage''"
    by (simp add: demo_env_def demo_state_def)
  have h4: "IsDataModelThread ?E (caller_thread ?p) ''USP_ERR_SetMessage''"
    by (simp add: demo_env_def demo_state_def)
  have r: "render ?E ''timeout'' [] = ''timeout''"
    by (simp add: demo_env_def)
  have m: "USP_ERR_MAXLEN ?E = 16"
    by (simp add: demo_env_def)
  have old: "c_str (usp_error ?s) = ''root cause A''"
    by (simp add: demo_state_def c_str_def)
  have upd: "c_str ((usp_error ?s)[0 := NUL]) = []"
    by (simp add: demo_state_def c_str_def)
  note inst = only_SetMessage_asks_classifier [where E = ?E and s = ?s
      and fmt = "''timeout''" and ap = "[]" and c = "''USP_ERR_Terminate''" and t = 0,
      unfolded Let_def r]
  note prim = only_SetMessage_asks_classifier [where E = ?E and s = ?p
      and fmt = "''timeout''" and ap = "[]" and c = "''USP_ERR_Terminate''" and t = 0]
  have "usp_error (USP_ERR_SetMessage ?E ''timeout'' [] ?s) = usp_error ?s"
    using inst h3 by blast
  then have a: "c_str (usp_error (USP_ERR_SetMessage ?E ''timeout'' [] ?s)) = ''root cause A''"
    using old by simp
  have "usp_error (USP_ERR_ClearMessage ?s) = (usp_error ?s)[0 := NUL]"
    using inst by blast
  then have b: "c_str (usp_error (USP_ERR_ClearMessage ?s)) = []"
    using upd by simp
  have "take (Suc (min (length ''timeout'') (USP_ERR_MAXLEN ?E - 1)))
      (usp_error (state_of (USP_ERR_Terminate ?E ''timeout'' [] ?s))) =
      take (USP_ERR_MAXLEN ?E - 1) ''timeout'' @ [NUL]"
    using inst h1 h2 by blast
  then have "take (Suc (min (length ''timeout'') (16 - 1)))
      (usp_error (state_of (USP_ERR_Terminate ?E ''timeout'' [] ?s))) =
      take (16 - 1) ''timeout'' @ [NUL]"
    by (simp only: m)
  then have c: "take 8 (usp_error (state_of (USP_ERR_Terminate ?E ''timeout'' [] ?s))) =
      ''timeout'' @ [NUL]"
    by (simp add: eval_nat_numeral)
  have d: "Call_IsDataModelThread ''USP_ERR_SetMessage'' \<in>
      set (emitted ?p (USP_ERR_SetMessage ?E ''timeout'' [] ?p))"
    using prim by blast
  have e: "Call_IsDataModelThread ''USP_ERR_Terminate'' \<notin>
      set (emitted ?p (state_of (USP_ERR_Terminate ?E ''timeout'' [] ?p)))"
    using prim by blast
  show ?thesis
    using h1 h2 h3 h4 a b c d e by blast
qed

subsection \<open>The handler of SIGSEGV\<close>

text \<open>
  \<^verbatim>\<open>SegFaultHandler\<close> makes two calls to the log, the error line and then the call stack,
  and ends in \<^verbatim>\<open>abort()\<close>; it leaves the static array alone. After \<^verbatim>\<open>USP_ERR_Init\<close> a
  SIGSEGV runs this handler, so the process ends aborted. Whether the two log functions
  may be called from a signal handler is a property of usp_log and is not part of this model.
\<close>

lemma SegFaultHandler_logs_then_aborts:
  "SegFaultHandler sig s =
     Aborted (s\<lparr>calls := calls s @ [Call_LOG_Error ''ERROR: Segmentation Fault'', Call_LOG_Callstack]\<rparr>)"
  by (simp add: SegFaultHandler_def abort_def USP_LOG_Error_def USP_LOG_Callstack_def)

lemma SIGSEGV_after_Init_aborts:
  "is_Aborted (deliver_SIGSEGV (USP_ERR_Init s)) \<and>
   emitted s (state_of (deliver_SIGSEGV (USP_ERR_Init s))) =
     [Call_LOG_Error ''ERROR: Segmentation Fault'', Call_LOG_Callstack] \<and>
   usp_error (state_of (deliver_SIGSEGV (USP_ERR_Init s))) = usp_error s"
  by (simp add: deliver_SIGSEGV_def USP_ERR_Init_def SegFaultHandler_logs_then_aborts emitted_def)

end
